theory Spec2Isabelle
  imports Main
begin

section \<open>Python values used by the retrieval engine\<close>

text \<open>
  The engine is \<^verbatim>\<open>vector_store.py\<close> (class \<^verbatim>\<open>VectorStore\<close>) and
  \<^verbatim>\<open>retriever.py\<close> (class \<^verbatim>\<open>Retriever\<close>). A Python \<^verbatim>\<open>str\<close> is modelled as a
  \<open>string\<close> whose elements each stand for one character of the text (one code point, as
  far as the 8-bit \<open>char\<close> reaches); Python integers are \<open>int\<close>; an exception is a value
  \<open>Inl e\<close> of a sum type.
\<close>

datatype py_error =
    IndexError
  | FaissAssertionError
  | FaissReadError
  | NumpyLoadError
  | FileExistsError

text \<open>\<^verbatim>\<open>xs[i]\<close>: a negative index counts from the end, anything else out of range raises.\<close>

definition py_index :: "'a list \<Rightarrow> int \<Rightarrow> py_error + 'a" where
  "py_index xs i =
     (if 0 \<le> i \<and> i < int (length xs) then Inr (xs ! nat i)
      else if - int (length xs) \<le> i \<and> i < 0 then Inr (xs ! nat (int (length xs) + i))
      else Inl IndexError)"

text \<open>
  \<^verbatim>\<open>str.isspace\<close> on one character, for the code points below 256: tab to carriage
  return, the four separators 28 to 31, space, NEL (133) and the no-break space (160).
\<close>

definition py_isspace :: "char \<Rightarrow> bool" where
  "py_isspace c = ((of_char c :: nat) \<in> set [9, 10, 11, 12, 13, 28, 29, 30, 31, 32, 133, 160])"

definition lstrip :: "string \<Rightarrow> string" where
  "lstrip s = dropWhile py_isspace s"

definition rstrip :: "string \<Rightarrow> string" where
  "rstrip s = rev (dropWhile py_isspace (rev s))"

definition strip :: "string \<Rightarrow> string" where
  "strip s = rstrip (lstrip s)"

definition startswith :: "string \<Rightarrow> string \<Rightarrow> bool" where
  "startswith s p = (take (length p) s = p)"

text \<open>\<^verbatim>\<open>s.split(sep, 1)\<close> for a one-character separator: one or two pieces.\<close>

definition split_once :: "char \<Rightarrow> string \<Rightarrow> string list" where
  "split_once sep s =
     (if sep \<in> set s
      then [takeWhile (\<lambda>c. c \<noteq> sep) s, tl (dropWhile (\<lambda>c. c \<noteq> sep) s)]
      else [s])"

text \<open>
  \<^verbatim>\<open>f.readline()\<close> on the text that is still unread: the line with its newline (or
  the whole rest when there is no newline), and the text left for \<^verbatim>\<open>f.read()\<close>.
\<close>

fun readline :: "string \<Rightarrow> string \<times> string" where
  "readline [] = ([], [])"
| "readline (c # cs) =
     (if c = CHR ''\<newline>'' then ([c], cs)
      else (case readline cs of (l, r) \<Rightarrow> (c # l, r)))"

section \<open>Documents and the recipe parser\<close>

record doc_metadata =
  cwe :: string
  tags :: "string list"
  languages :: "string list"

record document =
  metadata :: doc_metadata
  content :: string

text \<open>
  One entry of \<^verbatim>\<open>recipe_dir.glob("*.txt")\<close>: the file's name and its text as
  \<^verbatim>\<open>open(path, "r", encoding="utf-8")\<close> delivers it (decoded, every line ending read
  as one newline). The corpus is the list of these entries in the order the glob yields
  them.
\<close>

record recipe_file =
  file_name :: string
  file_text :: string

text \<open>
  The records the logger receives at level WARNING, in order (the INFO records are not
  part of the model).
\<close>

type_synonym warnings = "string list"

definition skip_warning :: "string \<Rightarrow> string" where
  "skip_warning n = ''    - Skipping '' @ n @ '': First line is not a CWE ID.''"

definition no_recipes_warning :: string where
  "no_recipes_warning = ''No recipes found to build vector store.''"

text \<open>
  \<^verbatim>\<open>_parse_recipes\<close>: the loop over the recipe files, with the list \<^verbatim>\<open>docs\<close> and the
  warnings logged so far as the loop state.
\<close>

fun parse_loop ::
  "recipe_file list \<Rightarrow> document list \<Rightarrow> warnings \<Rightarrow> py_error + (document list \<times> warnings)"
where
  "parse_loop [] docs log = Inr (docs, log)"
| "parse_loop (f # fs) docs log =
     (case readline (file_text f) of (line, rest) \<Rightarrow>
        (let first_line = strip line in
         if \<not> startswith first_line ''cwe:''
         then parse_loop fs docs (log @ [skip_warning (file_name f)])
         else (case py_index (split_once CHR '':'' first_line) 1 of
                 Inl e \<Rightarrow> Inl e
               | Inr part \<Rightarrow>
                   parse_loop fs
                     (docs @ [\<lparr>metadata = \<lparr>cwe = strip part, tags = [], languages = []\<rparr>,
                               content = rest\<rparr>])
                     log)))"

definition parse_recipes :: "recipe_file list \<Rightarrow> py_error + (document list \<times> warnings)" where
  "parse_recipes files = parse_loop files [] []"

section \<open>The nearest-neighbour indices\<close>

text \<open>
  \<^verbatim>\<open>faiss.IndexIDMap(faiss.IndexFlatL2(d))\<close> is an exhaustive index: its rows are
  pairs of an id and a vector, in insertion order. The sentence encoder and the distance
  of the index belong to libraries outside the repository, so they are parameters of the
  model: \<open>enc\<close> maps a text to its vector (\<^verbatim>\<open>embedding_model.encode\<close>, row by row; every
  store uses the same fixed model) and \<open>dist\<close> is the distance the index ranks by, with
  values in any linear order.
\<close>

type_synonym 'v index = "(int \<times> 'v) list"

text \<open>\<^verbatim>\<open>_create_index\<close>: the embeddings are added under the ids \<^verbatim>\<open>np.arange(n)\<close>.\<close>

definition create_index :: "'v list \<Rightarrow> 'v index" where
  "create_index embeddings = zip (map int [0..<length embeddings]) embeddings"

text \<open>
  \<^verbatim>\<open>index.search(query_vector, k)\<close>, the row of labels for the one query: the ids of
  the \<open>k\<close> nearest rows by ascending distance, filled up with \<open>-1\<close> when the index
  has fewer than \<open>k\<close> rows. The library does not fix the order of rows at equal
  distance; the model keeps them in insertion order, and no result below depends on it.
\<close>

definition faiss_search :: "('v \<Rightarrow> 'v \<Rightarrow> 'o::linorder) \<Rightarrow> 'v index \<Rightarrow> 'v \<Rightarrow> nat \<Rightarrow> int list" where
  "faiss_search dist idx qv k =
     (let ranked = map fst (sort_key (\<lambda>row. dist qv (snd row)) idx)
      in take k ranked @ replicate (k - length ranked) (- 1))"

section \<open>The vector store and its snapshot\<close>

record 'v vector_store =
  cwe_index :: "'v index option"
  full_text_index :: "'v index option"
  documents :: "document list"

text \<open>
  What is found at \<^verbatim>\<open>index_path\<close>: nothing, something that is not a directory, or a
  directory, which maps file names to what \<^verbatim>\<open>faiss.write_index\<close> and \<^verbatim>\<open>np.save\<close>
  stored there. Both are taken to store their argument without loss.
\<close>

datatype 'v blob = IndexBlob "'v index" | DocumentsBlob "document list"

datatype 'v path_state =
    Absent
  | NotADirectory
  | Directory "string \<rightharpoonup> 'v blob"

definition read_index :: "(string \<rightharpoonup> 'v blob) \<Rightarrow> string \<Rightarrow> py_error + 'v index" where
  "read_index d n = (case d n of Some (IndexBlob i) \<Rightarrow> Inr i | _ \<Rightarrow> Inl FaissReadError)"

definition np_load :: "(string \<rightharpoonup> 'v blob) \<Rightarrow> string \<Rightarrow> py_error + document list" where
  "np_load d n = (case d n of Some (DocumentsBlob ds) \<Rightarrow> Inr ds | _ \<Rightarrow> Inl NumpyLoadError)"

text \<open>\<^verbatim>\<open>index_path.mkdir(exist_ok=True)\<close>.\<close>

definition mkdir_exist_ok :: "'v path_state \<Rightarrow> py_error + (string \<rightharpoonup> 'v blob)" where
  "mkdir_exist_ok st =
     (case st of
        Absent \<Rightarrow> Inr Map.empty
      | NotADirectory \<Rightarrow> Inl FileExistsError
      | Directory d \<Rightarrow> Inr d)"

text \<open>
  \<^verbatim>\<open>_build_indexes\<close>: returns the store, what is at \<^verbatim>\<open>index_path\<close> afterwards, and
  the warnings logged.
\<close>

definition build_indexes ::
  "(string \<Rightarrow> 'v) \<Rightarrow> recipe_file list \<Rightarrow> 'v path_state
     \<Rightarrow> py_error + ('v vector_store \<times> 'v path_state \<times> warnings)"
where
  "build_indexes enc files st =
     (case parse_recipes files of
        Inl e \<Rightarrow> Inl e
      | Inr (docs, log) \<Rightarrow>
          if docs = []
          then Inr (\<lparr>cwe_index = None, full_text_index = None, documents = docs\<rparr>, st,
                    log @ [no_recipes_warning])
          else
            (let cwe_embeddings = map enc (map (\<lambda>doc. cwe (metadata doc)) docs);
                 full_text_embeddings = map enc (map content docs);
                 ci = create_index cwe_embeddings;
                 fi = create_index full_text_embeddings
             in case mkdir_exist_ok st of
                  Inl e \<Rightarrow> Inl e
                | Inr d \<Rightarrow>
                    Inr (\<lparr>cwe_index = Some ci, full_text_index = Some fi, documents = docs\<rparr>,
                         Directory (d(''cwe.index'' \<mapsto> IndexBlob ci,
                                      ''full_text.index'' \<mapsto> IndexBlob fi,
                                      ''documents.npy'' \<mapsto> DocumentsBlob docs)),
                         log)))"

text \<open>\<^verbatim>\<open>_load_or_build\<close>, which is all the constructor does after setting the fields.\<close>

definition load_or_build ::
  "(string \<Rightarrow> 'v) \<Rightarrow> recipe_file list \<Rightarrow> 'v path_state
     \<Rightarrow> py_error + ('v vector_store \<times> 'v path_state \<times> warnings)"
where
  "load_or_build enc files st =
     (case st of
        Directory d \<Rightarrow>
          (case read_index d ''cwe.index'' of
             Inl e \<Rightarrow> Inl e
           | Inr ci \<Rightarrow>
               (case read_index d ''full_text.index'' of
                  Inl e \<Rightarrow> Inl e
                | Inr fi \<Rightarrow>
                    (case np_load d ''documents.npy'' of
                       Inl e \<Rightarrow> Inl e
                     | Inr ds \<Rightarrow>
                         Inr (\<lparr>cwe_index = Some ci, full_text_index = Some fi, documents = ds\<rparr>,
                              st, []))))
      | _ \<Rightarrow> build_indexes enc files st)"

section \<open>Searching\<close>

text \<open>
  The comprehension \<^verbatim>\<open>[self.documents[i] for i in indices[0] if i != -1]\<close>; the first
  index out of range raises.
\<close>

fun lookup_documents :: "document list \<Rightarrow> int list \<Rightarrow> py_error + document list" where
  "lookup_documents docs [] = Inr []"
| "lookup_documents docs (i # is) =
     (if i \<noteq> - 1
      then (case py_index docs i of
              Inl e \<Rightarrow> Inl e
            | Inr d \<Rightarrow>
                (case lookup_documents docs is of
                   Inl e \<Rightarrow> Inl e
                 | Inr ds \<Rightarrow> Inr (d # ds)))
      else lookup_documents docs is)"

text \<open>
  \<^verbatim>\<open>search_cwe\<close>. The index is tested before the query is encoded; the search of
  the library refuses \<open>k \<le> 0\<close> with an assertion.
\<close>

definition search_cwe ::
  "(string \<Rightarrow> 'v) \<Rightarrow> ('v \<Rightarrow> 'v \<Rightarrow> 'o::linorder) \<Rightarrow> 'v vector_store \<Rightarrow> string \<Rightarrow> int
     \<Rightarrow> py_error + document list"
where
  "search_cwe enc dist store cwe_id k =
     (case cwe_index store of
        None \<Rightarrow> Inr []
      | Some idx \<Rightarrow>
          (let query_vector = enc cwe_id in
           if k \<le> 0 then Inl FaissAssertionError
           else lookup_documents (documents store) (faiss_search dist idx query_vector (nat k))))"

text \<open>
  The result loop of \<^verbatim>\<open>search_full_text\<close>, with \<^verbatim>\<open>results\<close> as its state. An index
  \<open>i\<close> that is in \<^verbatim>\<open>candidate_indices\<close> is in the range of \<^verbatim>\<open>self.documents\<close>.
\<close>

fun collect_hits ::
  "document list \<Rightarrow> int list \<Rightarrow> int \<Rightarrow> int list \<Rightarrow> document list \<Rightarrow> document list"
where
  "collect_hits docs cands k [] results = results"
| "collect_hits docs cands k (i # is) results =
     (if i \<in> set cands
      then (let results' = results @ [docs ! nat i] in
            if int (length results') = k then results'
            else collect_hits docs cands k is results')
      else collect_hits docs cands k is results)"

text \<open>
  \<^verbatim>\<open>filter_metadata\<close> is \<^verbatim>\<open>None\<close> or a dictionary, given by its items; an empty
  dictionary is false in a condition.
\<close>

type_synonym filter_metadata = "(string \<times> string) list option"

definition candidates :: "document list \<Rightarrow> filter_metadata \<Rightarrow> int list" where
  "candidates docs fm =
     (let candidate_indices = map int [0..<length docs] in
      case fm of
        None \<Rightarrow> candidate_indices
      | Some items \<Rightarrow>
          if items \<noteq> []
          then (case map_of items ''language'' of
                  None \<Rightarrow> candidate_indices
                | Some lang \<Rightarrow>
                    filter (\<lambda>i. lang \<in> set (languages (metadata (docs ! nat i))))
                      candidate_indices)
          else candidate_indices)"

definition search_full_text ::
  "(string \<Rightarrow> 'v) \<Rightarrow> ('v \<Rightarrow> 'v \<Rightarrow> 'o::linorder) \<Rightarrow> 'v vector_store \<Rightarrow> string \<Rightarrow> int
     \<Rightarrow> filter_metadata \<Rightarrow> document list"
where
  "search_full_text enc dist store query k fm =
     (case full_text_index store of
        None \<Rightarrow> []
      | Some idx \<Rightarrow>
          (let query_vector = enc query;
               candidate_indices = candidates (documents store) fm
           in if candidate_indices = [] then []
              else collect_hits (documents store) candidate_indices k
                     (faiss_search dist idx query_vector (length candidate_indices)) []))"

section \<open>The context extractor\<close>

text \<open>
  The four regular expressions of \<^verbatim>\<open>_extract_focused_context\<close>, each written as the
  function \<^verbatim>\<open>re.search\<close> computes for it. All four begin with a literal, and what
  follows the literal can always match, so the match begins at the first occurrence of
  the literal.
\<close>

text \<open>The text after the first occurrence of a literal, if it occurs.\<close>

fun find_after :: "string \<Rightarrow> string \<Rightarrow> string option" where
  "find_after lit [] = (if lit = [] then Some [] else None)"
| "find_after lit (c # cs) =
     (if startswith (c # cs) lit then Some (drop (length lit) (c # cs))
      else find_after lit cs)"

definition is_upper_ascii :: "char \<Rightarrow> bool" where
  "is_upper_ascii c = (c \<in> set ''ABCDEFGHIJKLMNOPQRSTUVWXYZ'')"

text \<open>Whether \<^verbatim>\<open>\n\n[A-Z]\<close> matches at the start of the text.\<close>

fun section_break :: "string \<Rightarrow> bool" where
  "section_break (a # b # c # _) =
     (a = CHR ''\<newline>'' \<and> b = CHR ''\<newline>'' \<and> is_upper_ascii c)"
| "section_break _ = False"

text \<open>
  The group \<^verbatim>\<open>(.*?)\<close> before \<^verbatim>\<open>(?:\n\n[A-Z]|\Z)\<close> under \<^verbatim>\<open>re.DOTALL\<close>: the shortest
  prefix that ends at a section break or at the end of the text.
\<close>

fun lazy_block :: "string \<Rightarrow> string" where
  "lazy_block [] = []"
| "lazy_block (c # cs) = (if section_break (c # cs) then [] else c # lazy_block cs)"

text \<open>\<^verbatim>\<open>name: (.*)\<close>, group 1: the rest of the line (the dot does not match a newline).\<close>

definition name_match :: "string \<Rightarrow> string option" where
  "name_match s = map_option (takeWhile (\<lambda>c. c \<noteq> CHR ''\<newline>'')) (find_after ''name: '' s)"

text \<open>\<^verbatim>\<open>Short Description:(.*?)(?:\n\n[A-Z]|\Z)\<close>, group 1.\<close>

definition description_match :: "string \<Rightarrow> string option" where
  "description_match s = map_option lazy_block (find_after ''Short Description:'' s)"

text \<open>\<^verbatim>\<open>Secure Coding Checklist:(.*?)(?:\n\n[A-Z]|\Z)\<close>, group 1.\<close>

definition checklist_match :: "string \<Rightarrow> string option" where
  "checklist_match s = map_option lazy_block (find_after ''Secure Coding Checklist:'' s)"

text \<open>\<^verbatim>\<open>Sample Fix Idea.*\<close> under \<^verbatim>\<open>re.DOTALL\<close>, group 0: from the marker to the end.\<close>

definition fix_idea_match :: "string \<Rightarrow> string option" where
  "fix_idea_match s = map_option (\<lambda>r. ''Sample Fix Idea'' @ r) (find_after ''Sample Fix Idea'' s)"

text \<open>\<^verbatim>\<open>sep.join(parts)\<close>.\<close>

fun join :: "string \<Rightarrow> string list \<Rightarrow> string" where
  "join sep [] = []"
| "join sep [x] = x"
| "join sep (x # y # ys) = x @ sep @ join sep (y # ys)"

definition sentinel :: string where
  "sentinel = ''No specific guidance found.''"

definition extract_focused_context :: "string \<Rightarrow> string" where
  "extract_focused_context s =
     (let name = (case name_match s of Some g \<Rightarrow> strip g | None \<Rightarrow> []);
          description = (case description_match s of Some g \<Rightarrow> strip g | None \<Rightarrow> []);
          checklist = (case checklist_match s of Some g \<Rightarrow> strip g | None \<Rightarrow> []);
          fix_idea = (case fix_idea_match s of Some g \<Rightarrow> strip g | None \<Rightarrow> []);
          parts =
            (if name \<noteq> [] then [''**'' @ name @ ''**''] else []) @
            (if description \<noteq> [] then [description] else []) @
            (if checklist \<noteq> [] then [''**Checklist:**\<newline>'' @ checklist] else []) @
            (if fix_idea \<noteq> [] then [''**Fix Idea:**\<newline>'' @ fix_idea] else [])
      in if parts = [] then sentinel else join ''\<newline>\<newline>'' parts)"

section \<open>The hybrid retriever\<close>

text \<open>
  The retriever holds the vector store and reaches it only through its two search
  methods. To observe which searches a retrieval runs, the store keeps a log of the calls
  made on it: a method call runs the search and appends the call, with the arguments it
  received, to the log. Nothing else writes to the log.
\<close>

datatype store_call =
    SearchCwe string int
  | SearchFullText string int filter_metadata

type_synonym call_log = "store_call list"

definition call_search_cwe ::
  "(string \<Rightarrow> 'v) \<Rightarrow> ('v \<Rightarrow> 'v \<Rightarrow> 'o::linorder) \<Rightarrow> 'v vector_store \<Rightarrow> string \<Rightarrow> int \<Rightarrow> call_log
     \<Rightarrow> (py_error + document list) \<times> call_log"
where
  "call_search_cwe enc dist store cwe_id k log =
     (search_cwe enc dist store cwe_id k, log @ [SearchCwe cwe_id k])"

definition call_search_full_text ::
  "(string \<Rightarrow> 'v) \<Rightarrow> ('v \<Rightarrow> 'v \<Rightarrow> 'o::linorder) \<Rightarrow> 'v vector_store \<Rightarrow> string \<Rightarrow> int
     \<Rightarrow> filter_metadata \<Rightarrow> call_log \<Rightarrow> document list \<times> call_log"
where
  "call_search_full_text enc dist store query k fm log =
     (search_full_text enc dist store query k fm, log @ [SearchFullText query k fm])"

text \<open>The last two statements of \<^verbatim>\<open>retrieve\<close>, on the raw content selected.\<close>

definition focused :: "string \<Rightarrow> string" where
  "focused raw_content = (if raw_content = [] then sentinel else extract_focused_context raw_content)"

text \<open>
  \<^verbatim>\<open>retrieve\<close>, started on an empty call log; it returns the log beside its result.
  \<^verbatim>\<open>search_cwe(cwe)\<close> and \<^verbatim>\<open>search_full_text(query, filter_metadata=...)\<close> both
  leave \<open>k\<close> at its default 1. An exception of the first search leaves \<^verbatim>\<open>retrieve\<close>.
\<close>

definition retrieve ::
  "(string \<Rightarrow> 'v) \<Rightarrow> ('v \<Rightarrow> 'v \<Rightarrow> 'o::linorder) \<Rightarrow> 'v vector_store \<Rightarrow> string \<Rightarrow> string \<Rightarrow> string
     \<Rightarrow> call_log \<times> (py_error + string)"
where
  "retrieve enc dist store cwe_id language code =
     (case call_search_cwe enc dist store cwe_id 1 [] of
        (Inl e, log) \<Rightarrow> (log, Inl e)
      | (Inr cwe_results, log) \<Rightarrow>
          (case cwe_results of
             d # _ \<Rightarrow> (log, Inr (focused (content d)))
           | [] \<Rightarrow>
               (let query = language @ '' '' @ cwe_id @ '' '' @ take 500 code in
                case call_search_full_text enc dist store query 1
                       (Some [(''language'', language)]) log of
                  (full_text_results, log') \<Rightarrow>
                    (let raw_content =
                           (case full_text_results of d # _ \<Rightarrow> content d | [] \<Rightarrow> [])
                     in (log', Inr (focused raw_content))))))"

section \<open>Constructing a store and retrieving from it\<close>

text \<open>
  \<^verbatim>\<open>main.py\<close> constructs the store and the retriever once and then calls
  \<^verbatim>\<open>retriever.retrieve\<close>; here the store is constructed where no snapshot exists yet.
\<close>

definition retrieve_on_corpus ::
  "(string \<Rightarrow> 'v) \<Rightarrow> ('v \<Rightarrow> 'v \<Rightarrow> 'o::linorder) \<Rightarrow> recipe_file list \<Rightarrow> string \<Rightarrow> string \<Rightarrow> string
     \<Rightarrow> py_error + string"
where
  "retrieve_on_corpus enc dist files cwe_id language code =
     (case load_or_build enc files Absent of
        Inl e \<Rightarrow> Inl e
      | Inr (store, st, log) \<Rightarrow> snd (retrieve enc dist store cwe_id language code))"

section \<open>Auxiliary definitions for the statements\<close>

text \<open>
  The header test that \<^verbatim>\<open>_parse_recipes\<close> applies to one file, and the document a
  file that passes it becomes. After the test, \<^verbatim>\<open>first_line.split(":", 1)[1]\<close> is the
  line without its first four characters.
\<close>

definition header_ok :: "recipe_file \<Rightarrow> bool" where
  "header_ok f = startswith (strip (fst (readline (file_text f)))) ''cwe:''"

definition doc_of_file :: "recipe_file \<Rightarrow> document" where
  "doc_of_file f =
     \<lparr>metadata =
        \<lparr>cwe = strip (drop 4 (strip (fst (readline (file_text f))))), tags = [], languages = []\<rparr>,
      content = snd (readline (file_text f))\<rparr>"

text \<open>The store that \<^verbatim>\<open>_build_indexes\<close> leaves for a non-empty document list.\<close>

definition built_store :: "(string \<Rightarrow> 'v) \<Rightarrow> document list \<Rightarrow> 'v vector_store" where
  "built_store enc docs =
     \<lparr>cwe_index = Some (create_index (map enc (map (\<lambda>doc. cwe (metadata doc)) docs))),
      full_text_index = Some (create_index (map enc (map content docs))),
      documents = docs\<rparr>"

text \<open>\<^verbatim>\<open>index_path.exists() and index_path.is_dir()\<close>.\<close>

definition is_dir :: "'v path_state \<Rightarrow> bool" where
  "is_dir st = (case st of Directory d \<Rightarrow> True | _ \<Rightarrow> False)"

text \<open>\<^verbatim>\<open>sub in s\<close> for two strings.\<close>

fun contains :: "string \<Rightarrow> string \<Rightarrow> bool" where
  "contains sub [] = (sub = [])"
| "contains sub (c # cs) = (startswith (c # cs) sub \<or> contains sub cs)"

text \<open>
  The result the specification promises for \<^verbatim>\<open>search_by_text\<close>: the \<open>k\<close> nearest members
  of the candidate set. All rows of the full-text index are ranked by distance, the rows of
  candidates are kept, and the first \<open>k\<close> of them are returned.
\<close>

definition nearest_candidates ::
  "(string \<Rightarrow> 'v) \<Rightarrow> ('v \<Rightarrow> 'v \<Rightarrow> 'o::linorder) \<Rightarrow> 'v vector_store \<Rightarrow> string \<Rightarrow> int
     \<Rightarrow> filter_metadata \<Rightarrow> document list"
where
  "nearest_candidates enc dist store query k fm =
     (case full_text_index store of
        None \<Rightarrow> []
      | Some idx \<Rightarrow>
          map (\<lambda>i. documents store ! nat i)
            (take (nat k)
               (filter (\<lambda>i. i \<in> set (candidates (documents store) fm))
                  (map fst (sort_key (\<lambda>row. dist (enc query) (snd row)) idx)))))"

section \<open>Concrete inputs\<close>

text \<open>A small encoder and distance for the closed examples: the length of the text.\<close>

definition toy_encode :: "string \<Rightarrow> int" where
  "toy_encode s = int (length s)"

definition toy_dist :: "int \<Rightarrow> int \<Rightarrow> int" where
  "toy_dist a b = \<bar>a - b\<bar>"

text \<open>The recipe of scenario A: its body, the file with the header the parser accepts,
  the same body under the header \<^verbatim>\<open>weakness: CWE-89\<close>, and the context extracted.\<close>

definition sqli_body :: string where
  "sqli_body = ''name: SQLi\<newline>\<newline>Short Description:\<newline>Use parameterized queries.\<newline>\<newline>Secure Coding Checklist:\<newline>- validate input\<newline>\<newline>Sample Fix Idea\<newline>Use prepared statements.\<newline>''"

definition sqli_recipe :: string where
  "sqli_recipe = ''cwe: CWE-89\<newline>'' @ sqli_body"

definition weakness_recipe :: string where
  "weakness_recipe = ''weakness: CWE-89\<newline>'' @ sqli_body"

definition sqli_doc :: document where
  "sqli_doc = \<lparr>metadata = \<lparr>cwe = ''CWE-89'', tags = [], languages = []\<rparr>, content = sqli_body\<rparr>"

definition sqli_context :: string where
  "sqli_context = ''**SQLi**\<newline>\<newline>Use parameterized queries.\<newline>\<newline>**Checklist:**\<newline>- validate input\<newline>\<newline>**Fix Idea:**\<newline>Sample Fix Idea\<newline>Use prepared statements.''"

text \<open>
  A snapshot directory with two documents of different languages, and the store that
  loading it gives. The full-text vectors are 2 and 10; a query of one character has the
  vector 1 under \<open>toy_encode\<close>.
\<close>

definition python_doc :: document where
  "python_doc = \<lparr>metadata = \<lparr>cwe = ''CWE-79'', tags = [], languages = [''python'']\<rparr>,
                  content = ''aa''\<rparr>"

definition java_doc :: document where
  "java_doc = \<lparr>metadata = \<lparr>cwe = ''CWE-89'', tags = [], languages = [''java'']\<rparr>,
                content = ''bbbbbbbbbb''\<rparr>"

definition mixed_snapshot :: "string \<rightharpoonup> int blob" where
  "mixed_snapshot =
     [''cwe.index'' \<mapsto> IndexBlob [(0, 6), (1, 6)],
      ''full_text.index'' \<mapsto> IndexBlob [(0, 2), (1, 10)],
      ''documents.npy'' \<mapsto> DocumentsBlob [python_doc, java_doc]]"

definition mixed_store :: "int vector_store" where
  "mixed_store =
     \<lparr>cwe_index = Some [(0, 6), (1, 6)], full_text_index = Some [(0, 2), (1, 10)],
      documents = [python_doc, java_doc]\<rparr>"

text \<open>
  A snapshot directory whose only document is a \<^verbatim>\<open>CWE-79\<close> recipe for Python, under
  any encoder.
\<close>

definition xss_doc :: document where
  "xss_doc = \<lparr>metadata = \<lparr>cwe = ''CWE-79'', tags = [], languages = [''python'']\<rparr>,
               content = ''name: XSS''\<rparr>"

definition xss_snapshot :: "(string \<Rightarrow> 'v) \<Rightarrow> (string \<rightharpoonup> 'v blob)" where
  "xss_snapshot enc =
     [''cwe.index'' \<mapsto> IndexBlob [(0, enc ''CWE-79'')],
      ''full_text.index'' \<mapsto> IndexBlob [(0, enc ''name: XSS'')],
      ''documents.npy'' \<mapsto> DocumentsBlob [xss_doc]]"

definition xss_store :: "(string \<Rightarrow> 'v) \<Rightarrow> 'v vector_store" where
  "xss_store enc =
     \<lparr>cwe_index = Some [(0, enc ''CWE-79'')], full_text_index = Some [(0, enc ''name: XSS'')],
      documents = [xss_doc]\<rparr>"

text \<open>
  A snapshot whose weakness-id index has no rows, while the full-text index has the one
  document, a \<^verbatim>\<open>CWE-79\<close> recipe for Java: the store loaded from it.
\<close>

definition java_xss_doc :: document where
  "java_xss_doc = \<lparr>metadata = \<lparr>cwe = ''CWE-79'', tags = [], languages = [''java'']\<rparr>,
                    content = ''name: XSS''\<rparr>"

definition fallback_store :: "int vector_store" where
  "fallback_store =
     \<lparr>cwe_index = Some [], full_text_index = Some [(0, 9)], documents = [java_xss_doc]\<rparr>"

section \<open>Properties of the parser\<close>

lemma split_once_header:
  assumes "startswith s ''cwe:''"
  shows "py_index (split_once CHR '':'' s) 1 = Inr (drop 4 s)"
proof -
  from assms have "take (length ''cwe:'') s = ''cwe:''"
    unfolding startswith_def .
  then obtain r where s: "s = ''cwe:'' @ r"
    by (metis append_take_drop_id)
  show ?thesis
    by (simp add: s split_once_def py_index_def)
qed

lemma parse_loop_eq:
  "parse_loop fs docs log =
     Inr (docs @ map doc_of_file (filter header_ok fs),
          log @ map (\<lambda>f. skip_warning (file_name f)) (filter (\<lambda>f. \<not> header_ok f) fs))"
proof (induction fs arbitrary: docs log)
  case Nil
  show ?case by simp
next
  case (Cons f fs)
  obtain line rest where rl: "readline (file_text f) = (line, rest)"
    by (cases "readline (file_text f)")
  show ?case
  proof (cases "header_ok f")
    case True
    then have sw: "startswith (strip line) ''cwe:''"
      by (simp add: header_ok_def rl)
    show ?thesis
      using True sw
      by (simp add: rl Cons.IH split_once_header doc_of_file_def)
  next
    case False
    then have "\<not> startswith (strip line) ''cwe:''"
      by (simp add: header_ok_def rl)
    then show ?thesis
      using False by (simp add: rl Cons.IH)
  qed
qed

lemma parse_recipes_eq:
  "parse_recipes files =
     Inr (map doc_of_file (filter header_ok files),
          map (\<lambda>f. skip_warning (file_name f)) (filter (\<lambda>f. \<not> header_ok f) files))"
  by (simp add: parse_recipes_def parse_loop_eq)

lemma parse_recipes_docs:
  "parse_recipes files = Inr (docs, w) \<Longrightarrow> docs = map doc_of_file (filter header_ok files)"
  by (simp add: parse_recipes_eq)

lemma doc_of_file_empty_sets:
  "tags (metadata (doc_of_file f)) = [] \<and> languages (metadata (doc_of_file f)) = []"
  by (simp add: doc_of_file_def)

lemma build_indexes_documents:
  assumes "build_indexes enc files st = Inr (S, st', w)"
  shows "documents S = map doc_of_file (filter header_ok files)"
  using assms
  by (auto simp: build_indexes_def parse_recipes_eq Let_def split: if_splits sum.splits)

lemma build_indexes_nonempty:
  assumes "build_indexes enc files st = Inr (S, st', w)" and "documents S \<noteq> []"
  shows "S = built_store enc (documents S) \<and>
         (\<exists>d. mkdir_exist_ok st = Inr d \<and>
              st' = Directory (d(''cwe.index'' \<mapsto> IndexBlob (the (cwe_index S)),
                                 ''full_text.index'' \<mapsto> IndexBlob (the (full_text_index S)),
                                 ''documents.npy'' \<mapsto> DocumentsBlob (documents S))))"
  using assms
  by (auto simp: build_indexes_def parse_recipes_eq Let_def built_store_def
      simp del: map_map split: if_splits sum.splits)

lemma build_indexes_empty:
  assumes "parse_recipes files = Inr ([], w0)"
  shows "build_indexes enc files st =
           Inr (\<lparr>cwe_index = None, full_text_index = None, documents = []\<rparr>, st,
                w0 @ [no_recipes_warning])"
  using assms by (simp add: build_indexes_def)

lemma candidates_no_languages:
  assumes "\<forall>d \<in> set docs. languages (metadata d) = []"
    and "map_of items ''language'' = Some L"
  shows "candidates docs (Some items) = []"
proof -
  from assms(2) have ne: "items \<noteq> []" by auto
  have "filter (\<lambda>i. L \<in> set (languages (metadata (docs ! nat i)))) (map int [0..<length docs]) = []"
    using assms(1) by (auto simp: filter_empty_conv)
  then show ?thesis
    using ne assms(2) by (simp add: candidates_def)
qed

lemma candidates_language:
  assumes "map_of items ''language'' = Some L" and "i \<in> set (candidates docs (Some items))"
  shows "L \<in> set (languages (metadata (docs ! nat i)))"
proof -
  from assms(1) have ne: "items \<noteq> []" by auto
  show ?thesis
    using assms ne by (auto simp: candidates_def)
qed

lemma collect_hits_subset:
  "set (collect_hits docs cands k is rs) \<subseteq> set rs \<union> (\<lambda>i. docs ! nat i) ` set cands"
proof (induction "is" arbitrary: rs)
  case Nil
  show ?case by simp
next
  case (Cons i "is")
  show ?case
  proof (cases "i \<in> set cands")
    case True
    have "set (collect_hits docs cands k is (rs @ [docs ! nat i]))
            \<subseteq> set (rs @ [docs ! nat i]) \<union> (\<lambda>i. docs ! nat i) ` set cands"
      by (rule Cons.IH)
    with True show ?thesis
      by (auto simp: Let_def)
  next
    case False
    with Cons.IH [of rs] show ?thesis by simp
  qed
qed



section \<open>Properties of the store\<close>

lemma load_after_build:
  assumes "build_indexes enc files st = Inr (S, st', w)" and "documents S \<noteq> []"
  shows "load_or_build enc files' st' = Inr (S, st', [])"
proof -
  from assms obtain d where S: "S = built_store enc (documents S)"
    and st': "st' = Directory (d(''cwe.index'' \<mapsto> IndexBlob (the (cwe_index S)),
                                 ''full_text.index'' \<mapsto> IndexBlob (the (full_text_index S)),
                                 ''documents.npy'' \<mapsto> DocumentsBlob (documents S)))"
    using build_indexes_nonempty by blast
  have "\<lparr>cwe_index = Some (the (cwe_index S)), full_text_index = Some (the (full_text_index S)),
         documents = documents S\<rparr> = S"
    by (subst (4) S, subst (2) S, subst S) (simp add: built_store_def)
  then show ?thesis
    by (simp add: st' load_or_build_def read_index_def np_load_def)
qed


lemma build_indexes_unsaved:
  assumes "build_indexes enc files st = Inr (S, st', w)" and "documents S = []"
  shows "st' = st"
  using assms
  by (auto simp: build_indexes_def parse_recipes_eq Let_def split: if_splits sum.splits)

lemma search_cwe_single_row:
  assumes "cwe_index S = Some [(0, v)]" and "documents S = [d]"
  shows "search_cwe enc dist S q 1 = Inr [d]"
  using assms by (simp add: search_cwe_def faiss_search_def py_index_def)

section \<open>Properties of the retriever\<close>

lemma retrieve_unfold:
  "retrieve enc dist S c l code =
     (case search_cwe enc dist S c 1 of
        Inl e \<Rightarrow> ([SearchCwe c 1], Inl e)
      | Inr [] \<Rightarrow>
          ([SearchCwe c 1,
            SearchFullText (l @ '' '' @ c @ '' '' @ take 500 code) 1 (Some [(''language'', l)])],
           Inr (focused
                  (case search_full_text enc dist S (l @ '' '' @ c @ '' '' @ take 500 code) 1
                          (Some [(''language'', l)]) of
                     [] \<Rightarrow> []
                   | d # _ \<Rightarrow> content d)))
      | Inr (d # _) \<Rightarrow> ([SearchCwe c 1], Inr (focused (content d))))"
  by (simp add: retrieve_def call_search_cwe_def call_search_full_text_def Let_def
      split: sum.splits list.splits)

section \<open>Evaluating the concrete inputs\<close>

lemma readline_header:
  "CHR ''\<newline>'' \<notin> set l \<Longrightarrow> readline (l @ CHR ''\<newline>'' # r) = (l @ [CHR ''\<newline>''], r)"
  by (induction l) auto

lemma strip_cwe_header: "strip ''cwe: CWE-89\<newline>'' = ''cwe: CWE-89''"
  by code_simp

lemma strip_cwe_id: "strip '' CWE-89'' = ''CWE-89''"
  by code_simp

lemma readline_sqli_recipe: "readline sqli_recipe = (''cwe: CWE-89\<newline>'', sqli_body)"
proof -
  have "readline (''cwe: CWE-89'' @ CHR ''\<newline>'' # sqli_body)
          = (''cwe: CWE-89'' @ [CHR ''\<newline>''], sqli_body)"
    by (rule readline_header) simp
  then show ?thesis
    by (simp add: sqli_recipe_def)
qed

lemma sqli_parse:
  "parse_recipes [\<lparr>file_name = n, file_text = sqli_recipe\<rparr>] = Inr ([sqli_doc], [])"
proof -
  have ok: "header_ok \<lparr>file_name = n, file_text = sqli_recipe\<rparr>"
    by (simp add: header_ok_def readline_sqli_recipe strip_cwe_header startswith_def)
  have doc: "doc_of_file \<lparr>file_name = n, file_text = sqli_recipe\<rparr> = sqli_doc"
    by (simp add: doc_of_file_def readline_sqli_recipe strip_cwe_header strip_cwe_id sqli_doc_def)
  show ?thesis
    by (simp add: parse_recipes_eq ok doc)
qed

lemma sqli_build:
  "build_indexes enc [\<lparr>file_name = n, file_text = sqli_recipe\<rparr>] Absent =
     Inr (built_store enc [sqli_doc],
          Directory [''cwe.index'' \<mapsto> IndexBlob (create_index [enc ''CWE-89'']),
                     ''full_text.index'' \<mapsto> IndexBlob (create_index [enc sqli_body]),
                     ''documents.npy'' \<mapsto> DocumentsBlob [sqli_doc]],
          [])"
  by (simp add: build_indexes_def sqli_parse mkdir_exist_ok_def built_store_def Let_def
      sqli_doc_def)

lemma sqli_body_nonempty: "sqli_body \<noteq> []"
  by (simp add: sqli_body_def)

lemma extract_sqli: "extract_focused_context sqli_body = sqli_context"
  by code_simp

lemma sqli_context_parts:
  "contains ''**SQLi**'' sqli_context"
  "contains ''Use parameterized queries.'' sqli_context"
  "contains ''**Checklist:**\<newline>- validate input'' sqli_context"
  "contains ''**Fix Idea:**\<newline>Sample Fix Idea\<newline>Use prepared statements.'' sqli_context"
  by code_simp+

lemma weakness_parse:
  "parse_recipes [\<lparr>file_name = ''sqli.txt'', file_text = weakness_recipe\<rparr>] =
     Inr ([], [''    - Skipping sqli.txt: First line is not a CWE ID.''])"
  by code_simp

lemma sentinel_without_title: "\<not> contains ''**SQLi**'' ''No specific guidance found.''"
  by code_simp

lemma mixed_load:
  "load_or_build toy_encode files (Directory mixed_snapshot) =
     Inr (mixed_store, Directory mixed_snapshot, [])"
  by (simp add: load_or_build_def mixed_snapshot_def mixed_store_def read_index_def np_load_def)

lemma mixed_search_java:
  "search_full_text toy_encode toy_dist mixed_store ''q'' 1 (Some [(''language'', ''java'')]) = []"
  by code_simp

lemma mixed_nearest_java:
  "nearest_candidates toy_encode toy_dist mixed_store ''q'' 1 (Some [(''language'', ''java'')])
     = [java_doc]"
  by code_simp

lemma mixed_search_python:
  "search_full_text toy_encode toy_dist mixed_store ''q'' 1 (Some [(''language'', ''python'')])
     = [python_doc]"
  by code_simp

lemma extract_xss: "extract_focused_context ''name: XSS'' = ''**XSS**''"
  by code_simp

lemma fallback_tier1:
  "search_cwe toy_encode toy_dist fallback_store ''CWE-89'' 1 = Inr []"
  by code_simp

lemma fallback_tier2:
  "search_full_text toy_encode toy_dist fallback_store ''java CWE-89 SELECT 1'' 1
     (Some [(''language'', ''java'')]) = [java_xss_doc]"
  by code_simp

lemma xss_tier1:
  "search_cwe toy_encode toy_dist (xss_store toy_encode) ''CWE-89'' 1 = Inr [xss_doc]"
  by (rule search_cwe_single_row) (simp_all add: xss_store_def)

section \<open>The claims\<close>

text \<open>
  C1. The claim: for every store, query, \<open>k\<close> and language filter, the search-then-filter
  policy of \<^verbatim>\<open>search_full_text\<close> returns exactly the \<open>k\<close> nearest members of the
  candidate set. The code asks the unfiltered index for as many neighbours as there are
  candidates, so a candidate that is farther from the query than a document outside the
  candidate set can be lost. On the store loaded from \<open>mixed_snapshot\<close>, for the query
  \<^verbatim>\<open>q\<close>, \<open>k = 1\<close> and the filter \<^verbatim>\<open>java\<close>, the code returns the empty list, while
  the nearest member of the candidate set is the Java document.
\<close>

theorem filtered_search_omits_nearest_candidate:
  "load_or_build toy_encode [] (Directory mixed_snapshot) =
     Inr (mixed_store, Directory mixed_snapshot, []) \<and>
   search_full_text toy_encode toy_dist mixed_store ''q'' 1 (Some [(''language'', ''java'')]) = [] \<and>
   nearest_candidates toy_encode toy_dist mixed_store ''q'' 1 (Some [(''language'', ''java'')])
     = [java_doc]"
  by (simp add: mixed_load mixed_search_java mixed_nearest_java)

text \<open>
  C2. The claim: when the only document of the corpus has the weakness id \<^verbatim>\<open>CWE-79\<close>
  and the languages \<^verbatim>\<open>{python}\<close>, \<^verbatim>\<open>retrieve("CWE-89", "java", c)\<close> returns the
  sentinel for every \<open>c\<close>. In the code the first tier is a nearest-neighbour search, which
  returns the only row of the index whatever the query is; the second tier is not reached,
  and the result is the context extracted from the \<^verbatim>\<open>CWE-79\<close> document. This holds for
  every encoder, every distance and every code string.
\<close>

theorem tier1_returns_other_weakness:
  "load_or_build enc files (Directory (xss_snapshot enc)) =
     Inr (xss_store enc, Directory (xss_snapshot enc), []) \<and>
   retrieve enc dist (xss_store enc) ''CWE-89'' ''java'' code =
     ([SearchCwe ''CWE-89'' 1], Inr ''**XSS**'')"
proof -
  have l: "load_or_build enc files (Directory (xss_snapshot enc)) =
     Inr (xss_store enc, Directory (xss_snapshot enc), [])"
    by (simp add: load_or_build_def xss_snapshot_def xss_store_def read_index_def np_load_def)
  have s: "search_cwe enc dist (xss_store enc) ''CWE-89'' 1 = Inr [xss_doc]"
    by (rule search_cwe_single_row) (simp_all add: xss_store_def)
  have "retrieve enc dist (xss_store enc) ''CWE-89'' ''java'' code =
     ([SearchCwe ''CWE-89'' 1], Inr ''**XSS**'')"
    by (simp add: retrieve_unfold s focused_def xss_doc_def extract_xss)
  with l show ?thesis by simp
qed

text \<open>
  C3. \<^verbatim>\<open>retrieve\<close> always calls \<^verbatim>\<open>search_cwe\<close> with the weakness id and \<open>k = 1\<close>. It
  calls \<^verbatim>\<open>search_full_text\<close> exactly when that first search returned the empty list,
  and then once, with the query made of the language, a space, the weakness id, a space and
  the first 500 characters of the code, with \<open>k = 1\<close> and the language as the filter: the
  log of the calls made on the store holds that call then and no other time, and the
  result is then the context of the first document this very search returns (the sentinel
  when it returns none). When the first search has a hit, the result is the context of its
  first document.
\<close>

theorem retrieve_runs_tier2_iff_tier1_empty:
  "fst (retrieve enc dist S c l code) =
     (if search_cwe enc dist S c 1 = Inr []
      then [SearchCwe c 1,
            SearchFullText (l @ '' '' @ c @ '' '' @ take 500 code) 1 (Some [(''language'', l)])]
      else [SearchCwe c 1]) \<and>
   snd (retrieve enc dist S c l code) =
     (case search_cwe enc dist S c 1 of
        Inl e \<Rightarrow> Inl e
      | Inr [] \<Rightarrow>
          Inr (focused
                 (case search_full_text enc dist S (l @ '' '' @ c @ '' '' @ take 500 code) 1
                         (Some [(''language'', l)]) of
                    [] \<Rightarrow> []
                  | d # _ \<Rightarrow> content d))
      | Inr (d # _) \<Rightarrow> Inr (focused (content d)))"
  by (simp add: retrieve_unfold split: sum.splits list.splits)

theorem retrieve_runs_tier2_iff_tier1_empty_witness:
  "retrieve toy_encode toy_dist fallback_store ''CWE-89'' ''java'' ''SELECT 1'' =
     ([SearchCwe ''CWE-89'' 1,
       SearchFullText ''java CWE-89 SELECT 1'' 1 (Some [(''language'', ''java'')])],
      Inr ''**XSS**'') \<and>
   retrieve toy_encode toy_dist (xss_store toy_encode) ''CWE-89'' ''java'' ''SELECT 1'' =
     ([SearchCwe ''CWE-89'' 1], Inr ''**XSS**'')"
proof -
  have f: "focused (content java_xss_doc) = ''**XSS**''"
    by (simp add: focused_def java_xss_doc_def extract_xss)
  have g: "focused (content xss_doc) = ''**XSS**''"
    by (simp add: focused_def xss_doc_def extract_xss)
  from retrieve_runs_tier2_iff_tier1_empty
         [of toy_encode toy_dist fallback_store "''CWE-89''" "''java''" "''SELECT 1''"]
  have a: "retrieve toy_encode toy_dist fallback_store ''CWE-89'' ''java'' ''SELECT 1'' =
     ([SearchCwe ''CWE-89'' 1,
       SearchFullText ''java CWE-89 SELECT 1'' 1 (Some [(''language'', ''java'')])],
      Inr ''**XSS**'')"
    by (simp add: fallback_tier1 fallback_tier2 f prod_eq_iff)
  from retrieve_runs_tier2_iff_tier1_empty
         [of toy_encode toy_dist "xss_store toy_encode" "''CWE-89''" "''java''" "''SELECT 1''"]
  have b: "retrieve toy_encode toy_dist (xss_store toy_encode) ''CWE-89'' ''java'' ''SELECT 1'' =
     ([SearchCwe ''CWE-89'' 1], Inr ''**XSS**'')"
    by (simp add: xss_tier1 g prod_eq_iff)
  from a b show ?thesis by (rule conjI)
qed

text \<open>
  C4. Every document the recipe parser produces has no tags and no languages. So on a
  store built by \<^verbatim>\<open>_build_indexes\<close>, \<^verbatim>\<open>search_full_text\<close> with a filter that has the
  key \<^verbatim>\<open>language\<close> returns the empty list for every query and every \<open>k\<close>.
\<close>

theorem parsed_store_language_filter_empty:
  assumes "parse_recipes files = Inr (docs, w0)"
    and "build_indexes enc files st = Inr (S, st', w)"
    and "map_of items ''language'' = Some L"
  shows "(\<forall>d \<in> set docs. tags (metadata d) = [] \<and> languages (metadata d) = []) \<and>
         search_full_text enc dist S q k (Some items) = []"
proof -
  from assms(1) have docs: "docs = map doc_of_file (filter header_ok files)"
    by (rule parse_recipes_docs)
  then have empty: "\<forall>d \<in> set docs. tags (metadata d) = [] \<and> languages (metadata d) = []"
    by (auto simp: doc_of_file_empty_sets)
  from assms(2) have "documents S = docs"
    by (simp add: build_indexes_documents docs)
  with empty assms(3) have "candidates (documents S) (Some items) = []"
    by (simp add: candidates_no_languages)
  then have "search_full_text enc dist S q k (Some items) = []"
    by (simp add: search_full_text_def split: option.splits)
  with empty show ?thesis by simp
qed

theorem parsed_store_language_filter_empty_witness:
  "parse_recipes [\<lparr>file_name = ''sqli.txt'', file_text = sqli_recipe\<rparr>] = Inr ([sqli_doc], []) \<and>
   tags (metadata sqli_doc) = [] \<and> languages (metadata sqli_doc) = [] \<and>
   search_full_text toy_encode toy_dist (built_store toy_encode [sqli_doc]) ''java CWE-89 x'' 1
     (Some [(''language'', ''java'')]) = []"
proof -
  have m: "map_of [(''language'', ''java'')] ''language'' = Some ''java''"
    by simp
  from parsed_store_language_filter_empty [OF sqli_parse sqli_build m] sqli_parse
  show ?thesis by simp
qed

text \<open>
  C5. The claim names the header \<^verbatim>\<open>weakness: <id>\<close>. The parser tests for \<^verbatim>\<open>cwe:\<close>:
  of the two files below, the one whose first line is \<^verbatim>\<open>weakness: CWE-89\<close> is skipped
  with a warning, and the one whose first line is \<^verbatim>\<open>cwe: CWE-79\<close>, which does not
  match \<^verbatim>\<open>weakness: <id>\<close>, becomes a document.
\<close>

theorem weakness_header_is_skipped:
  "parse_recipes
     [\<lparr>file_name = ''a.txt'', file_text = ''weakness: CWE-89\<newline>body''\<rparr>,
      \<lparr>file_name = ''b.txt'', file_text = ''cwe: CWE-79\<newline>body''\<rparr>] =
   Inr ([\<lparr>metadata = \<lparr>cwe = ''CWE-79'', tags = [], languages = []\<rparr>, content = ''body''\<rparr>],
        [''    - Skipping a.txt: First line is not a CWE ID.''])"
  by code_simp

text \<open>
  C5, amended. For every list of recipe files the parser raises no error. A file whose
  first line, without the surrounding whitespace, does not begin with \<^verbatim>\<open>cwe:\<close> gives
  no document and one warning that names it; every other file gives one document, in the
  order of the files: its weakness id is what follows the first colon of that line,
  stripped, it has no tags and no languages, and its content is the rest of the file.
\<close>

theorem parse_recipes_skips_malformed:
  "parse_recipes files =
     Inr (map doc_of_file (filter header_ok files),
          map (\<lambda>f. skip_warning (file_name f)) (filter (\<lambda>f. \<not> header_ok f) files))"
  by (simp add: parse_recipes_def parse_loop_eq)

text \<open>
  C6. When the parser finds no valid recipe, \<^verbatim>\<open>_build_indexes\<close> raises no error,
  creates neither index and leaves \<^verbatim>\<open>index_path\<close> as it was; on that store
  \<^verbatim>\<open>search_cwe\<close> and \<^verbatim>\<open>search_full_text\<close> return the empty list for every query,
  every \<open>k\<close> and every filter, and \<^verbatim>\<open>retrieve\<close> returns the sentinel for every input.
\<close>

theorem empty_corpus_sentinel:
  assumes "parse_recipes files = Inr ([], w0)"
  shows "build_indexes enc files st =
           Inr (\<lparr>cwe_index = None, full_text_index = None, documents = []\<rparr>, st,
                w0 @ [no_recipes_warning]) \<and>
         search_cwe enc dist \<lparr>cwe_index = None, full_text_index = None, documents = []\<rparr> q k
           = Inr [] \<and>
         search_full_text enc dist \<lparr>cwe_index = None, full_text_index = None, documents = []\<rparr>
           q k fm = [] \<and>
         snd (retrieve enc dist \<lparr>cwe_index = None, full_text_index = None, documents = []\<rparr>
                c l code)
           = Inr ''No specific guidance found.''"
  using assms
  by (simp add: build_indexes_empty search_cwe_def search_full_text_def retrieve_unfold focused_def
      sentinel_def)

theorem empty_corpus_sentinel_witness:
  "build_indexes toy_encode [\<lparr>file_name = ''sqli.txt'', file_text = weakness_recipe\<rparr>] Absent =
     Inr (\<lparr>cwe_index = None, full_text_index = None, documents = []\<rparr>, Absent,
          [''    - Skipping sqli.txt: First line is not a CWE ID.'', no_recipes_warning]) \<and>
   search_cwe toy_encode toy_dist \<lparr>cwe_index = None, full_text_index = None, documents = []\<rparr>
     ''q'' 3 = Inr [] \<and>
   search_full_text toy_encode toy_dist \<lparr>cwe_index = None, full_text_index = None, documents = []\<rparr>
     ''q'' 3 None = [] \<and>
   snd (retrieve toy_encode toy_dist \<lparr>cwe_index = None, full_text_index = None, documents = []\<rparr>
          ''CWE-89'' ''java'' ''SELECT 1'')
     = Inr ''No specific guidance found.''"
  using empty_corpus_sentinel [OF weakness_parse, where enc = toy_encode and st = Absent
      and dist = toy_dist and q = "''q''" and k = 3 and fm = None and c = "''CWE-89''"
      and l = "''java''" and code = "''SELECT 1''"]
  by simp

text \<open>
  C7. Every document that \<^verbatim>\<open>search_full_text\<close> returns under a filter with the
  language \<open>L\<close> has \<open>L\<close> among its languages, for every store, query and \<open>k\<close>.
\<close>

theorem search_full_text_language_member:
  assumes "map_of items ''language'' = Some L"
    and "d \<in> set (search_full_text enc dist S q k (Some items))"
  shows "L \<in> set (languages (metadata d))"
proof (cases "full_text_index S")
  case None
  with assms(2) show ?thesis by (simp add: search_full_text_def)
next
  case (Some idx)
  let ?cands = "candidates (documents S) (Some items)"
  show ?thesis
  proof (cases "?cands = []")
    case True
    with Some assms(2) show ?thesis by (simp add: search_full_text_def)
  next
    case False
    with Some assms(2)
    have "d \<in> set (collect_hits (documents S) ?cands k
                     (faiss_search dist idx (enc q) (length ?cands)) [])"
      by (simp add: search_full_text_def Let_def)
    then have "d \<in> (\<lambda>i. documents S ! nat i) ` set ?cands"
      using collect_hits_subset by fastforce
    then obtain i where "i \<in> set ?cands" and "d = documents S ! nat i" by blast
    with assms(1) show ?thesis
      by (simp add: candidates_language)
  qed
qed

theorem search_full_text_language_member_witness:
  "python_doc \<in> set (search_full_text toy_encode toy_dist mixed_store ''q'' 1
                        (Some [(''language'', ''python'')])) \<and>
   ''python'' \<in> set (languages (metadata python_doc))"
proof -
  have m: "map_of [(''language'', ''python'')] ''language'' = Some ''python''"
    by simp
  have r: "python_doc \<in> set (search_full_text toy_encode toy_dist mixed_store ''q'' 1
                               (Some [(''language'', ''python'')]))"
    by (simp add: mixed_search_python)
  from search_full_text_language_member [OF m r] r show ?thesis by (rule conjI [rotated])
qed



text \<open>
  C9. Let \<open>S\<close> be the store the constructor built from a corpus, where \<^verbatim>\<open>index_path\<close>
  was not a directory. If the corpus had a valid recipe, \<^verbatim>\<open>index_path\<close> is afterwards
  a directory that holds the two indices of \<open>S\<close> under \<^verbatim>\<open>cwe.index\<close> and
  \<^verbatim>\<open>full_text.index\<close> and its documents under \<^verbatim>\<open>documents.npy\<close>; a fresh store
  constructed afterwards, over any corpus, is loaded from that directory without a build,
  is equal to \<open>S\<close>, and so answers every \<^verbatim>\<open>search_cwe\<close> and every
  \<^verbatim>\<open>search_full_text\<close> query as \<open>S\<close> does, with the same documents in the same order.
  If the corpus had no valid recipe, nothing is written, and a fresh store over the same
  corpus is built again, equal to \<open>S\<close>.
\<close>

theorem snapshot_round_trip:
  assumes built: "load_or_build enc files st = Inr (S, st', w)"
    and nd: "\<not> is_dir st"
  shows "(documents S \<noteq> [] \<longrightarrow>
            (\<exists>d ci fi S'.
               st' = Directory d \<and> cwe_index S = Some ci \<and> full_text_index S = Some fi \<and>
               d ''cwe.index'' = Some (IndexBlob ci) \<and>
               d ''full_text.index'' = Some (IndexBlob fi) \<and>
               d ''documents.npy'' = Some (DocumentsBlob (documents S)) \<and>
               load_or_build enc files' st' = Inr (S', st', []) \<and> S' = S \<and>
               (\<forall>q k. search_cwe enc dist S' q k = search_cwe enc dist S q k) \<and>
               (\<forall>q k fm. search_full_text enc dist S' q k fm
                          = search_full_text enc dist S q k fm))) \<and>
         (documents S = [] \<longrightarrow>
            st' = st \<and> load_or_build enc files st' = Inr (S, st', w))"
proof -
  from nd have "load_or_build enc files st = build_indexes enc files st"
    by (cases st) (simp_all add: load_or_build_def is_dir_def)
  with built have b: "build_indexes enc files st = Inr (S, st', w)"
    by simp
  have saved: "\<exists>d ci fi S'.
               st' = Directory d \<and> cwe_index S = Some ci \<and> full_text_index S = Some fi \<and>
               d ''cwe.index'' = Some (IndexBlob ci) \<and>
               d ''full_text.index'' = Some (IndexBlob fi) \<and>
               d ''documents.npy'' = Some (DocumentsBlob (documents S)) \<and>
               load_or_build enc files' st' = Inr (S', st', []) \<and> S' = S \<and>
               (\<forall>q k. search_cwe enc dist S' q k = search_cwe enc dist S q k) \<and>
               (\<forall>q k fm. search_full_text enc dist S' q k fm
                          = search_full_text enc dist S q k fm)"
    if ne: "documents S \<noteq> []"
  proof -
    from b ne obtain d0 where S: "S = built_store enc (documents S)"
      and st': "st' = Directory (d0(''cwe.index'' \<mapsto> IndexBlob (the (cwe_index S)),
                                    ''full_text.index'' \<mapsto> IndexBlob (the (full_text_index S)),
                                    ''documents.npy'' \<mapsto> DocumentsBlob (documents S)))"
      using build_indexes_nonempty by blast
    from S obtain ci fi where ci: "cwe_index S = Some ci" and fi: "full_text_index S = Some fi"
      by (metis built_store_def vector_store.select_convs(1) vector_store.select_convs(2))
    from b ne have l: "load_or_build enc files' st' = Inr (S, st', [])"
      by (rule load_after_build)
    let ?d = "d0(''cwe.index'' \<mapsto> IndexBlob (the (cwe_index S)),
                 ''full_text.index'' \<mapsto> IndexBlob (the (full_text_index S)),
                 ''documents.npy'' \<mapsto> DocumentsBlob (documents S))"
    have "?d ''cwe.index'' = Some (IndexBlob ci)"
      and "?d ''full_text.index'' = Some (IndexBlob fi)"
      and "?d ''documents.npy'' = Some (DocumentsBlob (documents S))"
      by (simp_all add: ci fi)
    with st' ci fi l show ?thesis by blast
  qed
  have unsaved: "st' = st \<and> load_or_build enc files st' = Inr (S, st', w)"
    if e: "documents S = []"
  proof -
    from b e have "st' = st" by (rule build_indexes_unsaved)
    with built show ?thesis by simp
  qed
  from saved unsaved show ?thesis by blast
qed

theorem snapshot_round_trip_witness:
  "\<not> is_dir (Absent :: int path_state) \<and>
   (\<exists>S st' w d.
      load_or_build toy_encode [\<lparr>file_name = ''sqli.txt'', file_text = sqli_recipe\<rparr>] Absent
        = Inr (S, st', w) \<and>
      documents S = [sqli_doc] \<and>
      st' = Directory d \<and>
      d ''cwe.index'' = Some (IndexBlob [(0, toy_encode ''CWE-89'')]) \<and>
      d ''full_text.index'' = Some (IndexBlob [(0, toy_encode sqli_body)]) \<and>
      d ''documents.npy'' = Some (DocumentsBlob [sqli_doc]) \<and>
      load_or_build toy_encode [] st' = Inr (S, st', []))"
proof -
  let ?st' = "Directory [''cwe.index'' \<mapsto> IndexBlob (create_index [toy_encode ''CWE-89'']),
                         ''full_text.index'' \<mapsto> IndexBlob (create_index [toy_encode sqli_body]),
                         ''documents.npy'' \<mapsto> DocumentsBlob [sqli_doc]]"
  have nd: "\<not> is_dir (Absent :: int path_state)"
    by (simp add: is_dir_def)
  have b: "load_or_build toy_encode [\<lparr>file_name = ''sqli.txt'', file_text = sqli_recipe\<rparr>] Absent
             = Inr (built_store toy_encode [sqli_doc], ?st', [])"
    by (simp add: load_or_build_def sqli_build)
  have d: "documents (built_store toy_encode [sqli_doc]) = [sqli_doc]"
    by (simp add: built_store_def)
  have ci: "cwe_index (built_store toy_encode [sqli_doc]) = Some [(0, toy_encode ''CWE-89'')]"
    by (simp add: built_store_def create_index_def sqli_doc_def)
  have fi: "full_text_index (built_store toy_encode [sqli_doc]) = Some [(0, toy_encode sqli_body)]"
    by (simp add: built_store_def create_index_def sqli_doc_def)
  from snapshot_round_trip [OF b nd, where files' = "[]" and dist = toy_dist] d
  obtain d0 where "?st' = Directory d0"
    and "d0 ''cwe.index'' = Some (IndexBlob [(0, toy_encode ''CWE-89'')])"
    and "d0 ''full_text.index'' = Some (IndexBlob [(0, toy_encode sqli_body)])"
    and "d0 ''documents.npy'' = Some (DocumentsBlob [sqli_doc])"
    and "load_or_build toy_encode [] ?st' = Inr (built_store toy_encode [sqli_doc], ?st', [])"
    by (auto simp: ci fi)
  with b d nd show ?thesis by blast
qed

text \<open>
  C10. The claim gives the recipe the header \<^verbatim>\<open>weakness: CWE-89\<close>. The parser skips
  such a file, the corpus is empty, and \<^verbatim>\<open>retrieve\<close> returns the sentinel, which does
  not contain \<^verbatim>\<open>**SQLi**\<close>.
\<close>

theorem weakness_header_scenario_gives_sentinel:
  "retrieve_on_corpus toy_encode toy_dist
     [\<lparr>file_name = ''sqli.txt'', file_text = weakness_recipe\<rparr>] ''CWE-89'' ''java'' ''SELECT 1''
     = Inr ''No specific guidance found.'' \<and>
   \<not> contains ''**SQLi**'' ''No specific guidance found.''"
proof -
  have r: "retrieve_on_corpus toy_encode toy_dist
     [\<lparr>file_name = ''sqli.txt'', file_text = weakness_recipe\<rparr>] ''CWE-89'' ''java'' ''SELECT 1''
     = Inr ''No specific guidance found.''"
    by (simp add: retrieve_on_corpus_def load_or_build_def build_indexes_def weakness_parse
        retrieve_unfold search_cwe_def search_full_text_def focused_def sentinel_def)
  from r sentinel_without_title show ?thesis by (rule conjI)
qed

text \<open>
  C10, amended. With the header \<^verbatim>\<open>cwe: CWE-89\<close>, the recipe \<open>sqli_recipe\<close> as the only
  file of the corpus and no snapshot present, \<^verbatim>\<open>retrieve("CWE-89", "java", code)\<close>
  returns \<open>sqli_context\<close> for every code string, every file name, every encoder and every
  distance; that string contains the title in bold, the description, the checklist under
  its label and the fix idea under its label.
\<close>

theorem scenario_a_with_cwe_header:
  "retrieve_on_corpus enc dist [\<lparr>file_name = n, file_text = sqli_recipe\<rparr>]
     ''CWE-89'' ''java'' code = Inr sqli_context \<and>
   contains ''**SQLi**'' sqli_context \<and>
   contains ''Use parameterized queries.'' sqli_context \<and>
   contains ''**Checklist:**\<newline>- validate input'' sqli_context \<and>
   contains ''**Fix Idea:**\<newline>Sample Fix Idea\<newline>Use prepared statements.'' sqli_context"
proof -
  have s: "search_cwe enc dist (built_store enc [sqli_doc]) ''CWE-89'' 1 = Inr [sqli_doc]"
    by (rule search_cwe_single_row) (simp_all add: built_store_def create_index_def)
  have c: "content sqli_doc = sqli_body"
    by (simp add: sqli_doc_def)
  have "retrieve_on_corpus enc dist [\<lparr>file_name = n, file_text = sqli_recipe\<rparr>]
          ''CWE-89'' ''java'' code = Inr sqli_context"
    by (simp add: retrieve_on_corpus_def load_or_build_def sqli_build retrieve_unfold s focused_def
        c sqli_body_nonempty extract_sqli)
  with sqli_context_parts show ?thesis by blast
qed

end
